theory Spec2Isabelle
  imports Main
begin

section \<open>The refinery base class of chonkie (\<open>src/chonkie/refinery/base.py\<close>)\<close>

subsection \<open>Python values and errors\<close>

text \<open>
  The entry point \<open>__call__\<close> inspects the run-time type of its argument, so the
  argument is a dynamically typed Python value. \<open>Chunk\<close> is imported from
  \<open>chonkie.types\<close> and is opaque here: its content is the type parameter \<open>'c\<close>.
  \<open>isinstance(x, list)\<close> holds for \<open>PyList\<close> only; a tuple is an ordered
  sequence that is not a \<open>list\<close>.
\<close>

datatype 'c pyval =
    Chunk 'c
  | PyList "'c pyval list"
  | PyTuple "'c pyval list"
  | PyStr string
  | PyInt int
  | PyNone

datatype error =
    ValueError string
  | NotImplementedError string
  | OtherError string

fun isinstance_list :: "'c pyval \<Rightarrow> bool" where
  "isinstance_list (PyList xs) = True"
| "isinstance_list v = False"

fun isinstance_Chunk :: "'c pyval \<Rightarrow> bool" where
  "isinstance_Chunk (Chunk c) = True"
| "isinstance_Chunk v = False"

subsection \<open>The instance and the machine state\<close>

text \<open>
  \<open>__init__\<close> stores one attribute. A subclass may add attributes of its own: they
  live in the extension part of the record scheme.
\<close>

record refinery =
  context_size :: int

text \<open>
  \<open>refine\<close> is abstract: each concrete strategy supplies it. A strategy receives the
  value it is called on and \<open>self\<close>; it returns a value or raises, and it may assign
  attributes of \<open>self\<close>.
\<close>

type_synonym ('c, 'm) strategy =
  "'c pyval \<Rightarrow> 'm refinery_scheme \<Rightarrow> (error + 'c pyval) \<times> 'm refinery_scheme"

text \<open>
  To state which calls an operation makes, the state carries next to \<open>self\<close> a log
  of the calls of \<open>refine\<close> and \<open>refine_batch\<close> made so far, oldest first, each
  with its argument.
\<close>

datatype 'c event =
    RefineCalled "'c pyval"
  | RefineBatchCalled "'c pyval list"

record ('c, 'm) machine =
  self :: "'m refinery_scheme"
  trace :: "'c event list"

type_synonym ('c, 'm) outcome = "(error + 'c pyval) \<times> ('c, 'm) machine"

subsection \<open>The methods\<close>

text \<open>\<open>__init__\<close>: lines 19 to 23.\<close>

definition init :: "int \<Rightarrow> error + refinery" where
  "init n =
     (if n < 0 then Inl (ValueError ''context_size must be non-negative'')
      else Inr \<lparr>context_size = n\<rparr>)"

text \<open>The body of the abstract \<open>refine\<close> of the base class: lines 25 to 28.\<close>

definition refine :: "('c, 'm) strategy" where
  "refine chunks slf =
     (Inl (NotImplementedError ''Refine method must be implemented by subclasses''), slf)"

text \<open>A call \<open>self.refine(chunks)\<close>, dispatched to the strategy \<open>rf\<close>, and logged.\<close>

definition call_refine ::
  "('c, 'm) strategy \<Rightarrow> 'c pyval \<Rightarrow> ('c, 'm) machine \<Rightarrow> ('c, 'm) outcome" where
  "call_refine rf chunks \<sigma> =
     (case rf chunks (self \<sigma>) of
        (r, slf) \<Rightarrow> (r, \<lparr>self = slf, trace = trace \<sigma> @ [RefineCalled chunks]\<rparr>))"

text \<open>
  The list comprehension \<open>[self.refine(chunks) for chunks in chunks_batch]\<close> of line
  32: the elements are visited in order, and the first call that raises ends the
  evaluation with that error; the list built so far is dropped.
\<close>

fun comprehension ::
  "('c, 'm) strategy \<Rightarrow> 'c pyval list \<Rightarrow> ('c, 'm) machine
    \<Rightarrow> (error + 'c pyval list) \<times> ('c, 'm) machine" where
  "comprehension rf [] \<sigma> = (Inr [], \<sigma>)"
| "comprehension rf (chunks # rest) \<sigma> =
     (case call_refine rf chunks \<sigma> of
        (Inl e, \<sigma>1) \<Rightarrow> (Inl e, \<sigma>1)
      | (Inr r, \<sigma>1) \<Rightarrow>
          (case comprehension rf rest \<sigma>1 of
             (Inl e, \<sigma>2) \<Rightarrow> (Inl e, \<sigma>2)
           | (Inr rs, \<sigma>2) \<Rightarrow> (Inr (r # rs), \<sigma>2)))"

text \<open>\<open>refine_batch\<close>: lines 30 to 32.\<close>

definition refine_batch ::
  "('c, 'm) strategy \<Rightarrow> 'c pyval list \<Rightarrow> ('c, 'm) machine \<Rightarrow> ('c, 'm) outcome" where
  "refine_batch rf chunks_batch \<sigma> =
     (case comprehension rf chunks_batch
             (\<sigma>\<lparr>trace := trace \<sigma> @ [RefineBatchCalled chunks_batch]\<rparr>) of
        (Inl e, \<sigma>') \<Rightarrow> (Inl e, \<sigma>')
      | (Inr rs, \<sigma>') \<Rightarrow> (Inr (PyList rs), \<sigma>'))"

text \<open>The body of the abstract class method \<open>is_available\<close>: lines 34 to 38.\<close>

definition is_available :: "error + bool" where
  "is_available = Inr True"





text \<open>
  \<open>__call__\<close>: lines 44 to 77. A list is falsy exactly when it is empty, so after the
  first test \<open>chunks\<close> is a list with a first element \<open>chunks[0]\<close>; in the third
  test \<open>chunks[0][0]\<close> is read only when \<open>chunks[0]\<close> is a non-empty list.
\<close>

definition call ::
  "('c, 'm) strategy \<Rightarrow> 'c pyval \<Rightarrow> ('c, 'm) machine \<Rightarrow> ('c, 'm) outcome" where
  "call rf chunks \<sigma> =
     (case chunks of
        PyList (first # rest) \<Rightarrow>
          if isinstance_Chunk first then call_refine rf chunks \<sigma>
          else if (case first of PyList (x # inner) \<Rightarrow> isinstance_Chunk x | _ \<Rightarrow> False)
            then refine_batch rf (first # rest) \<sigma>
          else (Inl (ValueError
            ''Invalid input type for Refinery: must be List[Chunk] or List[List[Chunk]]''), \<sigma>)
      | _ \<Rightarrow> (Inr chunks, \<sigma>))"

subsection \<open>Two concrete strategies\<close>

text \<open>
  The base class is abstract, so a worked instance needs a concrete \<open>refine\<close>. The
  first strategy has no attribute of its own: it returns a document's chunks in reverse
  order and raises on a value that is not a list. The second keeps a counter of its
  calls in an attribute of its own and returns its argument as it is. Chunks carry
  their text.
\<close>

definition reverse_docs :: "(string, unit) strategy" where
  "reverse_docs chunks slf =
     (case chunks of
        PyList xs \<Rightarrow> (Inr (PyList (rev xs)), slf)
      | _ \<Rightarrow> (Inl (OtherError ''not a document''), slf))"

definition counting_refine :: "(string, nat) strategy" where
  "counting_refine chunks slf = (Inr chunks, slf\<lparr>refinery.more := Suc (refinery.more slf)\<rparr>)"

definition start :: "(string, unit) machine" where
  "start = \<lparr>self = \<lparr>context_size = 2\<rparr>, trace = []\<rparr>"

definition start_counting :: "(string, nat) machine" where
  "start_counting = \<lparr>self = \<lparr>context_size = 2, \<dots> = 0\<rparr>, trace = []\<rparr>"


subsection \<open>\<open>__call__\<close> in a subclass that overrides \<open>refine_batch\<close>\<close>


section \<open>Properties of the list comprehension\<close>











section \<open>The entry point on a batch\<close>



section \<open>The entry point on one document\<close>

text \<open>
  C2. On a non-empty list whose first element is a Chunk, \<open>__call__\<close> is the call of
  \<open>refine\<close> on that list: the same result, the same effect on \<open>self\<close>, and that
  one call and no other.
\<close>

theorem call_chunk_list_is_refine:
  assumes "chunks = PyList (first # rest)" and "isinstance_Chunk first"
  shows "call rf chunks \<sigma> = call_refine rf chunks \<sigma>
    \<and> fst (call rf chunks \<sigma>) = fst (rf chunks (self \<sigma>))
    \<and> self (snd (call rf chunks \<sigma>)) = snd (rf chunks (self \<sigma>))
    \<and> trace (snd (call rf chunks \<sigma>)) = trace \<sigma> @ [RefineCalled chunks]"
  using assms by (simp add: call_def call_refine_def split_beta)

theorem call_chunk_list_is_refine_witness:
  "call reverse_docs (PyList [Chunk ''a'', Chunk ''b'']) start
     = call_refine reverse_docs (PyList [Chunk ''a'', Chunk ''b'']) start
   \<and> fst (call reverse_docs (PyList [Chunk ''a'', Chunk ''b'']) start)
     = Inr (PyList [Chunk ''b'', Chunk ''a''])
   \<and> trace (snd (call reverse_docs (PyList [Chunk ''a'', Chunk ''b'']) start))
     = [RefineCalled (PyList [Chunk ''a'', Chunk ''b''])]"
proof -
  have c: "isinstance_Chunk (Chunk ''a'')" by simp
  from call_chunk_list_is_refine [OF refl c, where rest = "[Chunk ''b'']" and rf = reverse_docs
      and \<sigma> = start]
  show ?thesis by (simp add: call_refine_def reverse_docs_def start_def)
qed

section \<open>The entry point on other input\<close>

text \<open>
  C3. On a non-empty list whose first element is neither a Chunk nor a non-empty list
  that starts with a Chunk, \<open>__call__\<close> raises the ValueError that asks for a list
  of Chunk or a list of lists of Chunk, and calls nothing. A first element that is
  the empty list is such a case.
\<close>

theorem call_invalid_input:
  assumes "chunks = PyList (first # rest)"
    and "\<not> isinstance_Chunk first"
    and "\<not> (\<exists>x inner. first = PyList (x # inner) \<and> isinstance_Chunk x)"
  shows "call rf chunks \<sigma> = (Inl (ValueError
      ''Invalid input type for Refinery: must be List[Chunk] or List[List[Chunk]]''), \<sigma>)
    \<and> call rf (PyList (PyList [] # others)) \<sigma> = (Inl (ValueError
      ''Invalid input type for Refinery: must be List[Chunk] or List[List[Chunk]]''), \<sigma>)"
  using assms by (auto simp: call_def split: pyval.splits list.splits)

text \<open>
  First elements that are an integer, an empty list, a tuple of chunks and a list that
  starts with a string.
\<close>

theorem call_invalid_input_witness:
  "call reverse_docs (PyList [PyInt 3, Chunk ''a'']) start = (Inl (ValueError
      ''Invalid input type for Refinery: must be List[Chunk] or List[List[Chunk]]''), start)
   \<and> call reverse_docs (PyList [PyList [], PyList [Chunk ''a'']]) start = (Inl (ValueError
      ''Invalid input type for Refinery: must be List[Chunk] or List[List[Chunk]]''), start)
   \<and> call reverse_docs (PyList [PyTuple [Chunk ''a'']]) start = (Inl (ValueError
      ''Invalid input type for Refinery: must be List[Chunk] or List[List[Chunk]]''), start)
   \<and> call reverse_docs (PyList [PyList [PyStr ''x'', Chunk ''a'']]) start = (Inl (ValueError
      ''Invalid input type for Refinery: must be List[Chunk] or List[List[Chunk]]''), start)"
proof -
  have 1: "\<not> isinstance_Chunk (PyInt 3 :: string pyval)"
    and 2: "\<not> (\<exists>x inner. (PyInt 3 :: string pyval) = PyList (x # inner) \<and> isinstance_Chunk x)"
    by simp_all
  have 3: "\<not> isinstance_Chunk (PyTuple [Chunk ''a''])"
    and 4: "\<not> (\<exists>x inner. PyTuple [Chunk ''a''] = PyList (x # inner) \<and> isinstance_Chunk x)"
    by simp_all
  have 5: "\<not> isinstance_Chunk (PyList [PyStr ''x'', Chunk ''a''])"
    and 6: "\<not> (\<exists>x inner. PyList [PyStr ''x'', Chunk ''a''] = PyList (x # inner)
               \<and> isinstance_Chunk x)"
    by simp_all
  from call_invalid_input [OF refl 1 2, where rest = "[Chunk ''a'']" and rf = reverse_docs
      and \<sigma> = start and others = "[PyList [Chunk ''a'']]"]
    call_invalid_input [OF refl 3 4, where rest = "[]" and rf = reverse_docs and \<sigma> = start]
    call_invalid_input [OF refl 5 6, where rest = "[]" and rf = reverse_docs and \<sigma> = start]
  show ?thesis by simp
qed

text \<open>
  C4. On a value that is not a list, and on the empty list, \<open>__call__\<close> returns its
  argument and raises nothing; the state is as before, so neither \<open>refine\<close> nor
  \<open>refine_batch\<close> was called.
\<close>

theorem call_pass_through:
  assumes "\<not> isinstance_list chunks \<or> chunks = PyList []"
  shows "call rf chunks \<sigma> = (Inr chunks, \<sigma>)"
  using assms by (cases chunks) (auto simp: call_def split: list.splits)

theorem call_pass_through_witness:
  "call reverse_docs (PyStr ''some text'') start = (Inr (PyStr ''some text''), start)
   \<and> call reverse_docs (PyInt 42) start = (Inr (PyInt 42), start)
   \<and> call reverse_docs (PyTuple [Chunk ''a'']) start = (Inr (PyTuple [Chunk ''a'']), start)
   \<and> call reverse_docs PyNone start = (Inr PyNone, start)
   \<and> call reverse_docs (PyList []) start = (Inr (PyList []), start)"
  using call_pass_through [of "PyStr ''some text''" reverse_docs start]
    call_pass_through [of "PyInt 42" reverse_docs start]
    call_pass_through [of "PyTuple [Chunk ''a'']" reverse_docs start]
    call_pass_through [of PyNone reverse_docs start]
    call_pass_through [of "PyList []" reverse_docs start]
  by simp

section \<open>Construction\<close>

text \<open>
  C5. Construction succeeds exactly when \<open>context_size\<close> is non-negative: for
  \<open>0 \<le> n\<close> it yields an instance whose \<open>context_size\<close> is \<open>n\<close>, and for \<open>n < 0\<close>
  it raises the ValueError and yields no instance.
\<close>

theorem init_succeeds_iff_nonneg:
  "(0 \<le> n \<longrightarrow> init n = Inr \<lparr>context_size = n\<rparr>)
   \<and> (n < 0 \<longrightarrow> init n = Inl (ValueError ''context_size must be non-negative''))
   \<and> ((\<exists>r. init n = Inr r) \<longleftrightarrow> 0 \<le> n)"
  by (simp add: init_def)

theorem init_succeeds_iff_nonneg_witness:
  "init 7 = Inr \<lparr>context_size = 7\<rparr>
   \<and> init 0 = Inr \<lparr>context_size = 0\<rparr>
   \<and> init (- 3) = Inl (ValueError ''context_size must be non-negative'')"
  using init_succeeds_iff_nonneg [of 7] init_succeeds_iff_nonneg [of 0]
    init_succeeds_iff_nonneg [of "- 3"]
  by simp

section \<open>Errors and the empty batch in \<open>refine_batch\<close>\<close>



text \<open>
  C7. On the empty batch \<open>refine_batch\<close> returns the empty list, whatever the
  strategy is: \<open>self\<close> is as before, and the log gains the call of \<open>refine_batch\<close>
  and no call of \<open>refine\<close>.
\<close>

theorem refine_batch_empty:
  "refine_batch rf [] \<sigma> = (Inr (PyList []), \<sigma>\<lparr>trace := trace \<sigma> @ [RefineBatchCalled []]\<rparr>)"
  by (simp add: refine_batch_def)

section \<open>The abstract methods\<close>

text \<open>
  C8, as the code has it. The body of the abstract \<open>refine\<close> raises
  NotImplementedError and leaves \<open>self\<close> as it is, so the entry point on a list of
  chunks raises it too when the \<open>refine\<close> it reaches is that body, as for a subclass
  that delegates to it. The body of the abstract
  \<open>is_available\<close> raises nothing: it returns \<open>True\<close>.
\<close>

theorem abstract_methods:
  "refine chunks slf
     = (Inl (NotImplementedError ''Refine method must be implemented by subclasses''), slf)
   \<and> fst (call refine (PyList (Chunk c # rest)) \<sigma>)
     = Inl (NotImplementedError ''Refine method must be implemented by subclasses'')
   \<and> is_available = Inr True"
  by (simp add: refine_def is_available_def call_def call_refine_def)

text \<open>
  The abstract \<open>is_available\<close> does not raise: its outcome is the value \<open>True\<close>, not
  an error.
\<close>

theorem is_available_counterexample:
  "is_available = Inr True \<and> \<not> isl is_available"
  by (simp add: is_available_def)

section \<open>The configuration is not modified by the base class\<close>




section \<open>The entry point looks at the first element only\<close>

text \<open>
  C10. \<open>__call__\<close> chooses its branch from the first element of the list and, for a
  batch, from the first element of that first list. Whatever the later elements are,
  a list that starts with a Chunk goes whole to \<open>refine\<close>, and a list whose first
  element is a list that starts with a Chunk goes whole to \<open>refine_batch\<close>.
\<close>

theorem call_inspects_first_only:
  "call rf (PyList (Chunk c # rest)) \<sigma> = call_refine rf (PyList (Chunk c # rest)) \<sigma>
   \<and> call rf (PyList (PyList (Chunk c # inner) # rest)) \<sigma>
       = refine_batch rf (PyList (Chunk c # inner) # rest) \<sigma>"
  by (simp add: call_def)

text \<open>
  A list of a chunk, an integer and \<open>None\<close> reaches \<open>refine\<close> as it is; in a batch
  whose second element is an integer, \<open>refine\<close> is called on that integer.
\<close>

theorem call_inspects_first_only_witness:
  "call counting_refine (PyList [Chunk ''a'', PyInt 3, PyNone]) start_counting
     = (Inr (PyList [Chunk ''a'', PyInt 3, PyNone]),
        \<lparr>self = \<lparr>context_size = 2, \<dots> = 1\<rparr>,
         trace = [RefineCalled (PyList [Chunk ''a'', PyInt 3, PyNone])]\<rparr>)
   \<and> call counting_refine (PyList [PyList [Chunk ''a'', PyStr ''x''], PyInt 3]) start_counting
     = (Inr (PyList [PyList [Chunk ''a'', PyStr ''x''], PyInt 3]),
        \<lparr>self = \<lparr>context_size = 2, \<dots> = 2\<rparr>,
         trace = [RefineBatchCalled [PyList [Chunk ''a'', PyStr ''x''], PyInt 3],
                  RefineCalled (PyList [Chunk ''a'', PyStr ''x'']), RefineCalled (PyInt 3)]\<rparr>)"
  using call_inspects_first_only [where rf = counting_refine and c = "''a''"
      and rest = "[PyInt 3, PyNone]" and \<sigma> = start_counting]
    call_inspects_first_only [where rf = counting_refine and c = "''a''" and rest = "[PyInt 3]"
      and \<sigma> = start_counting and inner = "[PyStr ''x'']"]
  by (simp add: refine_batch_def call_refine_def counting_refine_def start_counting_def)

end
